theory Spec2Isabelle
  imports Main "HOL-Library.AList" "HOL-Library.Word"
begin

section \<open>The HTTP client of the Dynatrace API wrapper\<close>

text \<open>
  The class \<open>HttpClient\<close> (the module http_client) has two methods: \<open>makeRequest\<close>, which builds
  one request, hands it to \<open>axios.request\<close> and translates every failure into a
  \<open>DynatraceAPIError\<close>, and \<open>paginatedCall\<close>, which drives \<open>makeRequest\<close> along the
  \<open>nextPageKey\<close> cursor. The transport is not part of the class: what \<open>axios.request\<close>
  settles with is an input of the model. The calls to the logger have no effect on what
  the methods return and are left out.
\<close>

subsection \<open>Objects\<close>

text \<open>
  A JavaScript object with string values (\<open>Record<string, string>\<close>, and the query
  parameters) is an association list in insertion order. \<open>k in obj\<close> is \<open>has_key\<close>,
  \<open>obj[k] = v\<close> is \<open>assign\<close> (an existing key keeps its place, a new one goes to the
  end), \<open>obj[k]\<close> is \<open>map_of obj k\<close>.
\<close>

type_synonym js_record = "(string \<times> string) list"

definition has_key :: "string \<Rightarrow> (string \<times> 'v) list \<Rightarrow> bool" where
  "has_key k obj = (map_of obj k \<noteq> None)"

definition assign :: "string \<Rightarrow> string \<Rightarrow> js_record \<Rightarrow> js_record" where
  "assign k v obj = AList.update k v obj"

text \<open>The \<open>error\<close> attribute of the upstream error envelope.\<close>

record ErrorDetail =
  code :: int
  message :: string
  constraintViolations :: "(string \<times> string) list"

text \<open>
  A decoded response body, as far as the client reads it: its \<open>error\<close> attribute (the
  body seen as \<open>ErrorEnvelope\<close>), its \<open>nextPageKey\<close> attribute and its array-valued
  attributes (the body seen as \<open>PaginatedResponse<T>\<close>), and the text that
  \<open>JSON.stringify(body, undefined, 2)\<close> prints for it. \<open>None\<close> is \<open>undefined\<close>. The two
  interfaces are declared in interfaces/dynatrace, which is not among the sources; the
  attribute named by \<open>item\<close> is looked up among \<open>arrays\<close>, so the model covers item
  names other than \<open>error\<close> and \<open>nextPageKey\<close>.
\<close>

record 'a json_body =
  error :: "ErrorDetail option"
  nextPageKey :: "string option"
  arrays :: "(string \<times> 'a list) list"
  json_text :: string

record 'a AxiosResponse =
  status :: int
  data :: "'a json_body"

text \<open>
  The value a rejected request carries: its own enumerable keys (what \<open>Object.keys\<close>
  lists), its \<open>message\<close>, its \<open>response\<close> attribute, and whether it is the transport's
  cancellation (what \<open>axios.isCancel\<close> tells). \<open>makeRequest\<close> reads the first three.
\<close>

record 'a AxiosError =
  keys :: "string list"
  ax_message :: string
  response :: "'a AxiosResponse option"
  isCancel :: bool

text \<open>
  Modelled from the spec: the class \<open>DynatraceAPIError\<close> of ./errors, which is not among
  the sources. The spec's Normalized Error is a human-readable message plus the
  structured detail; the callers read the detail as \<open>err.errorParams\<close>. The detail is
  \<open>None\<close> where the body it was taken from has no \<open>error\<close> attribute. The only
  enumerable attribute of an instance is \<open>errorParams\<close> (the message of an \<open>Error\<close> is
  not enumerable).
\<close>

record DynatraceAPIError =
  err_message :: string
  errorParams :: "ErrorDetail option"

definition DynatraceAPIError_keys :: "string list" where
  "DynatraceAPIError_keys = [''errorParams'']"

text \<open>What the rejection handler can be handed, and what the returned promise rejects with.\<close>

datatype 'a thrown = AxiosRejection "'a AxiosError" | ApiErrorThrown DynatraceAPIError

datatype failure = ApiError DynatraceAPIError | TypeError

datatype 'a axios_outcome = Resolved "'a AxiosResponse" | Rejected "'a AxiosError"

fun keys_of :: "'a thrown \<Rightarrow> string list" where
  "keys_of (AxiosRejection e) = keys e"
| "keys_of (ApiErrorThrown d) = DynatraceAPIError_keys"

fun message_of :: "'a thrown \<Rightarrow> string" where
  "message_of (AxiosRejection e) = ax_message e"
| "message_of (ApiErrorThrown d) = err_message d"

fun response_of :: "'a thrown \<Rightarrow> 'a AxiosResponse option" where
  "response_of (AxiosRejection e) = response e"
| "response_of (ApiErrorThrown d) = None"

subsection \<open>Requests\<close>

type_synonym buffer = "8 word list"

record file_upload =
  file_data :: buffer
  name :: string

record form_part =
  field :: string
  content :: buffer
  filename :: string

text \<open>A \<open>FormData\<close> is the list of its parts; \<open>form.append\<close> adds one at the end.\<close>

type_synonym form_data = "form_part list"

definition form_append :: "string \<Rightarrow> buffer \<Rightarrow> string \<Rightarrow> form_data \<Rightarrow> form_data" where
  "form_append k v fname form = form @ [\<lparr>field = k, content = v, filename = fname\<rparr>]"

datatype payload = Json js_record | Form form_data

record request_config =
  url :: string
  headers :: js_record
  params :: "js_record option"
  http_method :: string
  data_sent :: "payload option"
  responseType :: "string option"

record HttpClient =
  baseUrl :: string
  apiToken :: string

text \<open>\<open>`${res.status}`\<close>: an integer in decimal.\<close>

fun string_of_nat :: "nat \<Rightarrow> string" where
  "string_of_nat n =
     (if n < 10 then [''0123456789'' ! n]
      else string_of_nat (n div 10) @ [''0123456789'' ! (n mod 10)])"

declare string_of_nat.simps [simp del]

definition string_of_int :: "int \<Rightarrow> string" where
  "string_of_int i = (if i < 0 then ''-'' @ string_of_nat (nat (- i)) else string_of_nat (nat i))"

subsection \<open>makeRequest\<close>

text \<open>
  Lines 229 to 237: the headers object is the caller's (or a fresh \<open>{}\<close>), and the three
  assignments change it in place. The test is for the key \<open>Content-Type\<close>, the
  assignments are to the key \<open>Content-type\<close>.
\<close>

definition set_headers :: "HttpClient \<Rightarrow> js_record \<Rightarrow> file_upload option \<Rightarrow> js_record" where
  "set_headers c hs files =
     (let h1 = (if \<not> has_key ''Content-Type'' hs
                then assign ''Content-type'' ''application/json'' hs else hs);
          h2 = (case files of
                  Some f \<Rightarrow> assign ''Content-type'' ''multipart/form-data'' h1
                | None \<Rightarrow> h1)
      in assign ''Authorization'' (''Api-Token '' @ apiToken c) h2)"

text \<open>The argument of \<open>axios.request\<close>, lines 221 to 253.\<close>

definition request_of ::
  "HttpClient \<Rightarrow> string \<Rightarrow> js_record option \<Rightarrow> string option \<Rightarrow> js_record option \<Rightarrow>
   js_record option \<Rightarrow> file_upload option \<Rightarrow> string option \<Rightarrow> request_config" where
  "request_of c path ps meth hdrs queryParams files rt =
     (let method0 = (case meth of None \<Rightarrow> ''GET'' | Some m \<Rightarrow> m);
          headers0 = (case hdrs of None \<Rightarrow> [] | Some h \<Rightarrow> h);
          upd = (method0 = ''POST'' \<or> method0 = ''PUT'');
          body = (if upd then ps else None);
          params1 = (if upd then queryParams else ps);
          form = (case files of
                    Some f \<Rightarrow> form_append ''file'' (file_data f) (name f) []
                  | None \<Rightarrow> [])
      in \<lparr>url = baseUrl c @ path,
          headers = set_headers c headers0 files,
          params = params1,
          http_method = method0,
          data_sent = (case files of Some f \<Rightarrow> Some (Form form) | None \<Rightarrow> map_option Json body),
          responseType = rt\<rparr>)"

text \<open>
  The fulfilment handler, lines 255 to 265. What it throws is an \<open>Inl\<close>.
\<close>

definition on_fulfilled ::
  "string \<Rightarrow> 'a AxiosResponse \<Rightarrow> 'a thrown + 'a json_body" where
  "on_fulfilled u res =
     (if status res \<ge> 400 then
        (let errorData = data res;
             msg = ''Error making request to '' @ u @ '': '' @ string_of_int (status res)
                   @ ''. Response: '' @ json_text errorData
         in Inl (ApiErrorThrown \<lparr>err_message = msg, errorParams = error errorData\<rparr>))
      else Inr (data res))"

text \<open>
  The rejection handler, lines 266 to 291. Reading \<open>.data\<close> of an undefined \<open>response\<close>
  is a \<open>TypeError\<close>, which the handler does not catch.
\<close>

definition on_rejected :: "HttpClient \<Rightarrow> string \<Rightarrow> 'a thrown \<Rightarrow> failure" where
  "on_rejected c u err =
     (if ''response'' \<in> set (keys_of err) then
        (case response_of err of
           Some r \<Rightarrow> ApiError \<lparr>err_message = message_of err, errorParams = error (data r)\<rparr>
         | None \<Rightarrow> TypeError)
      else if ''request'' \<in> set (keys_of err) then
        ApiError \<lparr>err_message = ''No response from server '' @ baseUrl c,
                  errorParams = Some \<lparr>code = 0, message = message_of err,
                                       constraintViolations = []\<rparr>\<rparr>
      else
        (let msg = ''Error making request to '' @ u @ '': '' @ message_of err @ ''.''
         in ApiError \<lparr>err_message = msg,
                      errorParams = Some \<lparr>code = 0, message = msg,
                                           constraintViolations = []\<rparr>\<rparr>))"

text \<open>
  \<open>axios.request(..).then(f).catch(g)\<close>: the rejection handler is chained after the
  fulfilment handler, so it receives the rejections of the transport and also whatever
  the fulfilment handler throws.
\<close>

definition settle ::
  "HttpClient \<Rightarrow> string \<Rightarrow> 'a axios_outcome \<Rightarrow> failure + 'a json_body" where
  "settle c path out =
     (let u = baseUrl c @ path in
      case out of
        Resolved res \<Rightarrow>
          (case on_fulfilled u res of
             Inr d \<Rightarrow> Inr d
           | Inl t \<Rightarrow> Inl (on_rejected c u t))
      | Rejected e \<Rightarrow> Inl (on_rejected c u (AxiosRejection e)))"

text \<open>
  One call of \<open>makeRequest\<close>, given what the transport settles with: the request handed
  to the transport, the headers object of the caller after the call (\<open>None\<close> when the
  caller passed none; it is the object the request holds, the assignments being made
  on the parameter itself), and what the returned promise settles with (\<open>Inl\<close>: it
  rejects).
\<close>

record 'a call =
  request :: request_config
  caller_headers :: "js_record option"
  result :: "failure + 'a json_body"

definition makeRequest ::
  "HttpClient \<Rightarrow> string \<Rightarrow> js_record option \<Rightarrow> string option \<Rightarrow> js_record option \<Rightarrow>
   js_record option \<Rightarrow> file_upload option \<Rightarrow> string option \<Rightarrow> 'a axios_outcome \<Rightarrow> 'a call" where
  "makeRequest c path ps meth hdrs queryParams files rt out =
     (let req = request_of c path ps meth hdrs queryParams files rt
      in \<lparr>request = req,
          caller_headers = (case hdrs of None \<Rightarrow> None | Some h \<Rightarrow> Some (headers req)),
          result = settle c path out\<rparr>)"

subsection \<open>paginatedCall\<close>

text \<open>
  Lines 312 to 314: the query parameters of the next request. \<open>firstCall\<close> is the
  value the cursor variable starts with.
\<close>

definition next_params :: "string \<Rightarrow> js_record option \<Rightarrow> js_record option" where
  "next_params k ps = (if k \<noteq> ''firstCall'' then Some [(''nextPageKey'', k)] else ps)"

text \<open>
  The transport of a paginated call is the list of what it settles the successive
  requests with. The loop of lines 311 to 321 takes one element per iteration. The
  result is the list of the requests issued and what the call settles with; \<open>None\<close>
  says that the list ran out while the loop was still asking for a page. The \<open>headers\<close>
  variable of \<open>paginatedCall\<close> is the object every \<open>makeRequest\<close> of the loop assigns
  to, so each iteration passes on the headers of the request before.
\<close>

fun paginate ::
  "HttpClient \<Rightarrow> string \<Rightarrow> string \<Rightarrow> 'a axios_outcome list \<Rightarrow>
   string option \<Rightarrow> js_record option \<Rightarrow> js_record \<Rightarrow> 'a list \<Rightarrow>
   request_config list \<times> (failure + 'a list) option" where
  "paginate c path item [] npk ps hs items =
     (case npk of
        None \<Rightarrow> ([], Some (Inr items))
      | Some k \<Rightarrow> if k = [] then ([], Some (Inr items)) else ([], None))"
| "paginate c path item (out # script) npk ps hs items =
     (case npk of
        None \<Rightarrow> ([], Some (Inr items))
      | Some k \<Rightarrow>
          if k = [] then ([], Some (Inr items))
          else
            (let ps' = next_params k ps;
                 r = makeRequest c path ps' (Some ''GET'') (Some hs) None None None out
             in case result r of
                  Inl f \<Rightarrow> ([request r], Some (Inl f))
                | Inr resp \<Rightarrow>
                    apfst ((#) (request r))
                      (paginate c path item script (nextPageKey resp) ps'
                         (headers (request r))
                         (case map_of (arrays resp) item of
                            Some xs \<Rightarrow> items @ xs
                          | None \<Rightarrow> items))))"

definition paginatedCall ::
  "HttpClient \<Rightarrow> string \<Rightarrow> string \<Rightarrow> js_record option \<Rightarrow>
   js_record option \<Rightarrow> 'a axios_outcome list \<Rightarrow> request_config list \<times> (failure + 'a list) option" where
  "paginatedCall c path item ps hdrs script =
     paginate c path item script (Some ''firstCall'') ps
       (case hdrs of None \<Rightarrow> [] | Some h \<Rightarrow> h) []"

subsection \<open>Notions of the specification\<close>

text \<open>
  A page that names a next page: \<open>nextPageKey\<close> is present and not empty (what the loop
  condition tests). The items of a page under the attribute \<open>item\<close>, none when the page
  has no such attribute. The query parameters that hold only the cursor of a page.
\<close>

definition has_cursor :: "'a AxiosResponse \<Rightarrow> bool" where
  "has_cursor r = (case nextPageKey (data r) of None \<Rightarrow> False | Some k \<Rightarrow> k \<noteq> [])"

definition items_of :: "string \<Rightarrow> 'a AxiosResponse \<Rightarrow> 'a list" where
  "items_of item r = (case map_of (arrays (data r)) item of Some xs \<Rightarrow> xs | None \<Rightarrow> [])"

definition cursor_params :: "'a AxiosResponse \<Rightarrow> js_record option" where
  "cursor_params r =
     Some [(''nextPageKey'', case nextPageKey (data r) of Some k \<Rightarrow> k | None \<Rightarrow> [])]"

subsection \<open>Example data\<close>

definition env :: HttpClient where
  "env = \<lparr>baseUrl = ''https://env.example'', apiToken = ''dt0c01.abc''\<rparr>"

text \<open>A page of status 200 whose items are under \<open>items\<close>.\<close>

definition page :: "string list \<Rightarrow> string option \<Rightarrow> string AxiosResponse" where
  "page xs k = \<lparr>status = 200,
                data = \<lparr>error = None, nextPageKey = k, arrays = [(''items'', xs)],
                        json_text = ''{}''\<rparr>\<rparr>"

text \<open>The error envelope of the specification's scenario, and a response of status 401 with it.\<close>

definition token_failed :: ErrorDetail where
  "token_failed = \<lparr>code = 401, message = ''Token Authentication failed'',
                    constraintViolations = []\<rparr>"

definition response_401 :: "string \<Rightarrow> string AxiosResponse" where
  "response_401 txt = \<lparr>status = 401,
                        data = \<lparr>error = Some token_failed, nextPageKey = None, arrays = [],
                                json_text = txt\<rparr>\<rparr>"

text \<open>The transport rejecting with that response attached, and what \<open>makeRequest\<close> makes of it.\<close>

definition unauthorized :: "string AxiosError" where
  "unauthorized =
     \<lparr>keys = [''message'', ''request'', ''response''],
      ax_message = ''Request failed with status code 401'',
      response = Some (response_401 ''{}''),
      isCancel = False\<rparr>"

definition unauthorized_error :: failure where
  "unauthorized_error =
     ApiError \<lparr>err_message = ''Request failed with status code 401'',
               errorParams = Some token_failed\<rparr>"

text \<open>Rejections without a response: a timeout, a cancellation, an error before sending.\<close>

definition timed_out :: "string AxiosError" where
  "timed_out = \<lparr>keys = [''message'', ''request''], ax_message = ''timeout of 1000ms exceeded'',
                 response = None, isCancel = False\<rparr>"


definition not_sent :: "string AxiosError" where
  "not_sent = \<lparr>keys = [''message''], ax_message = ''Invalid URL'', response = None,
                isCancel = False\<rparr>"

definition upload :: file_upload where
  "upload = \<lparr>file_data = [0x50, 0x4B, 0x03, 0x04], name = ''extension.zip''\<rparr>"

section \<open>Properties\<close>

subsection \<open>Auxiliary facts\<close>

lemma map_of_assign: "map_of (assign k v hs) k' = (if k' = k then Some v else map_of hs k')"
  by (simp add: assign_def update_conv')

lemma result_makeRequest:
  "result (makeRequest c path ps meth hdrs qp files rt out) = settle c path out"
  by (simp add: makeRequest_def Let_def)

lemma request_makeRequest:
  "request (makeRequest c path ps meth hdrs qp files rt out)
     = request_of c path ps meth hdrs qp files rt"
  by (simp add: makeRequest_def Let_def)

lemma caller_headers_makeRequest:
  "caller_headers (makeRequest c path ps meth (Some h) qp files rt out)
     = Some (set_headers c h files)"
  by (simp add: makeRequest_def request_of_def Let_def)

lemma headers_request_of:
  "headers (request_of c path ps meth hdrs qp files rt)
     = set_headers c (case hdrs of None \<Rightarrow> [] | Some h \<Rightarrow> h) files"
  by (simp add: request_of_def Let_def)

lemma settle_ok: "status res < 400 \<Longrightarrow> settle c path (Resolved res) = Inr (data res)"
  by (simp add: settle_def on_fulfilled_def)

lemma params_get: "params (request_of c path ps (Some ''GET'') hdrs None files rt) = ps"
  by (simp add: request_of_def Let_def)

lemma method_get: "http_method (request_of c path ps (Some ''GET'') hdrs qp files rt) = ''GET''"
  by (simp add: request_of_def Let_def)


text \<open>
  The rejection path: a rejection with a response attached fails with the \<open>error\<close>
  attribute of the response body as detail.
\<close>

lemma rejected_with_response:
  assumes "''response'' \<in> set (keys e)" and "response e = Some r"
  shows "result (makeRequest c path ps meth hdrs qp files rt (Rejected e))
         = Inl (ApiError \<lparr>err_message = ax_message e, errorParams = error (data r)\<rparr>)"
  using assms by (simp add: result_makeRequest settle_def on_rejected_def)

text \<open>
  The fulfilment path: what the fulfilment handler throws for a status of 400 or more
  has neither a \<open>response\<close> nor a \<open>request\<close> key, so the rejection handler takes its last
  branch and the code of the detail is 0.
\<close>

lemma fulfilled_error_rewrapped:
  assumes "status res \<ge> 400"
  shows "\<exists>msg. result (makeRequest c path ps meth hdrs qp files rt (Resolved res))
         = Inl (ApiError \<lparr>err_message = msg,
                errorParams = Some \<lparr>code = 0, message = msg, constraintViolations = []\<rparr>\<rparr>)"
  using assms
  by (simp add: result_makeRequest settle_def on_fulfilled_def on_rejected_def Let_def
      DynatraceAPIError_keys_def)

text \<open>The content type without a file: the default, and a caller's \<open>Content-Type\<close> kept.\<close>

lemma content_type_default:
  assumes "\<not> has_key ''Content-Type'' h"
  shows "map_of (headers (request (makeRequest c path ps meth (Some h) qp None rt out)))
           ''Content-type'' = Some ''application/json''"
  using assms
  by (simp add: request_makeRequest headers_request_of set_headers_def Let_def map_of_assign)

lemma content_type_of_caller:
  assumes "has_key ''Content-Type'' h"
  shows "map_of (headers (request (makeRequest c path ps meth (Some h) qp None rt out)))
           ''Content-Type'' = map_of h ''Content-Type''
       \<and> map_of (headers (request (makeRequest c path ps meth (Some h) qp None rt out)))
           ''Content-type'' = map_of h ''Content-type''"
  using assms
  by (simp add: request_makeRequest headers_request_of set_headers_def Let_def map_of_assign)

text \<open>One iteration of the loop.\<close>

lemma paginate_ok_step:
  assumes "k \<noteq> []" and "status res < 400"
  shows "paginate c path item (Resolved res # script) (Some k) ps hs items =
     apfst ((#) (request_of c path (next_params k ps) (Some ''GET'') (Some hs) None None None))
       (paginate c path item script (nextPageKey (data res)) (next_params k ps)
          (headers (request_of c path (next_params k ps) (Some ''GET'') (Some hs) None None None))
          (items @ items_of item res))"
  using assms
  by (simp add: Let_def result_makeRequest request_makeRequest settle_ok items_of_def
      split: option.splits)

lemma paginate_fail_step:
  assumes "k \<noteq> []" and "settle c path out = Inl f"
  shows "paginate c path item (out # script) (Some k) ps hs items =
     ([request_of c path (next_params k ps) (Some ''GET'') (Some hs) None None None], Some (Inl f))"
  using assms by (simp add: Let_def result_makeRequest request_makeRequest)

lemma paginate_done:
  assumes "\<not> has_cursor res"
  shows "paginate c path item script (nextPageKey (data res)) ps hs items = ([], Some (Inr items))"
  using assms by (cases script) (auto simp: has_cursor_def split: option.splits)

lemma paginate_first_request:
  assumes "k \<noteq> []"
  shows "\<exists>qs. fst (paginate c path item (out # script) (Some k) ps hs items) =
     request_of c path (next_params k ps) (Some ''GET'') (Some hs) None None None # qs"
  using assms
  by (cases "settle c path out") (simp_all add: Let_def result_makeRequest request_makeRequest)

declare paginate.simps [simp del]

text \<open>The loop over a chain of pages that ends, from any state of the loop.\<close>

lemma paginate_pages:
  assumes "\<forall>r \<in> set rs. status r < 400 \<and> has_cursor r \<and> nextPageKey (data r) \<noteq> Some ''firstCall''"
    and "status l < 400" and "\<not> has_cursor l" and "k \<noteq> []"
  shows "snd (paginate c path item (map Resolved rs @ [Resolved l]) (Some k) ps hs items)
           = Some (Inr (items @ concat (map (items_of item) (rs @ [l]))))
       \<and> map params (fst (paginate c path item (map Resolved rs @ [Resolved l]) (Some k) ps hs items))
           = next_params k ps # map cursor_params rs
       \<and> map http_method (fst (paginate c path item (map Resolved rs @ [Resolved l]) (Some k) ps hs items))
           = replicate (Suc (length rs)) ''GET''"
  using assms
proof (induction rs arbitrary: k ps hs items)
  case Nil
  then show ?case
    by (simp add: paginate_ok_step paginate_done params_get method_get)
next
  case (Cons r rs)
  from Cons.prems obtain k' where k': "nextPageKey (data r) = Some k'" "k' \<noteq> []" "k' \<noteq> ''firstCall''"
    by (auto simp: has_cursor_def split: option.splits)
  have st: "status r < 400" using Cons.prems by simp
  have rest: "\<forall>r \<in> set rs. status r < 400 \<and> has_cursor r \<and> nextPageKey (data r) \<noteq> Some ''firstCall''"
    using Cons.prems by simp
  have np: "next_params k' q = cursor_params r" for q
    using k' by (simp add: next_params_def cursor_params_def)
  note IH = Cons.IH [OF rest Cons.prems(2) Cons.prems(3) k'(2)]
  show ?case
    using Cons.prems(4) st k'
    by (simp add: paginate_ok_step IH np params_get method_get)
qed

lemma paginate_failure:
  assumes "\<forall>r \<in> set rs. status r < 400 \<and> has_cursor r"
    and "settle c path bad = Inl f" and "k \<noteq> []"
  shows "snd (paginate c path item (map Resolved rs @ bad # rest) (Some k) ps hs items) = Some (Inl f)
       \<and> length (fst (paginate c path item (map Resolved rs @ bad # rest) (Some k) ps hs items))
           = Suc (length rs)"
  using assms
proof (induction rs arbitrary: k ps hs items)
  case Nil
  then show ?case by (simp add: paginate_fail_step)
next
  case (Cons r rs)
  from Cons.prems obtain k' where k': "nextPageKey (data r) = Some k'" "k' \<noteq> []"
    by (auto simp: has_cursor_def split: option.splits)
  have st: "status r < 400" using Cons.prems by simp
  have rest: "\<forall>r \<in> set rs. status r < 400 \<and> has_cursor r"
    using Cons.prems by simp
  note IH = Cons.IH [OF rest Cons.prems(2) k'(2)]
  show ?case
    using Cons.prems(3) st k' by (simp add: paginate_ok_step IH)
qed

lemma paginate_resend:
  assumes "\<forall>r \<in> set rs. status r < 400 \<and> has_cursor r"
    and "status r0 < 400" and "nextPageKey (data r0) = Some ''firstCall''" and "k \<noteq> []"
  shows "Suc (Suc (length rs)) \<le> length (fst (paginate c path item (map Resolved rs @ Resolved r0 # out # rest) (Some k) ps hs items))
       \<and> params (fst (paginate c path item (map Resolved rs @ Resolved r0 # out # rest) (Some k) ps hs items) ! Suc (length rs))
         = params (fst (paginate c path item (map Resolved rs @ Resolved r0 # out # rest) (Some k) ps hs items) ! length rs)"
  using assms
proof (induction rs arbitrary: k ps hs items)
  case Nil
  have fc: "''firstCall'' \<noteq> ([]::string)" by simp
  obtain qs where qs: "fst (paginate c path item (out # rest) (Some ''firstCall'') (next_params k ps)
          (headers (request_of c path (next_params k ps) (Some ''GET'') (Some hs) None None None))
          (items @ items_of item r0)) =
     request_of c path (next_params ''firstCall'' (next_params k ps)) (Some ''GET'')
        (Some (headers (request_of c path (next_params k ps) (Some ''GET'') (Some hs) None None None))) None None None # qs"
    using paginate_first_request [OF fc] by blast
  show ?case
    using Nil.prems
    by (simp add: paginate_ok_step qs params_get) (simp add: next_params_def)
next
  case (Cons r rs)
  from Cons.prems obtain k' where k': "nextPageKey (data r) = Some k'" "k' \<noteq> []"
    by (auto simp: has_cursor_def split: option.splits)
  have st: "status r < 400" using Cons.prems by simp
  have rest: "\<forall>r \<in> set rs. status r < 400 \<and> has_cursor r"
    using Cons.prems by simp
  note IH = Cons.IH [OF rest Cons.prems(2) Cons.prems(3) k'(2)]
  show ?case
    using Cons.prems(4) st k' by (simp add: paginate_ok_step IH)
qed

text \<open>
  The query parameters of every request of the loop are those the loop started with or
  hold only a cursor, which is never \<open>firstCall\<close>.
\<close>

lemma paginate_params:
  "\<forall>q \<in> set (fst (paginate c path item script npk ps hs items)).
     params q = ps \<or> (\<exists>k. k \<noteq> ''firstCall'' \<and> params q = Some [(''nextPageKey'', k)])"
proof (induction script arbitrary: npk ps hs items)
  case Nil
  then show ?case by (simp add: paginate.simps split: option.splits)
next
  case (Cons out script)
  show ?case
  proof (cases npk)
    case None
    then show ?thesis by (simp add: paginate.simps)
  next
    case (Some k)
    show ?thesis
    proof (cases "k = []")
      case True
      with Some show ?thesis by (simp add: paginate.simps)
    next
      case False
      have np: "next_params k ps = ps
                \<or> (k \<noteq> ''firstCall'' \<and> next_params k ps = Some [(''nextPageKey'', k)])"
        by (simp add: next_params_def)
      show ?thesis
      proof (cases "settle c path out")
        case (Inl f)
        with Some False np show ?thesis
          by (auto simp: paginate_fail_step params_get)
      next
        case (Inr resp)
        define q0 where "q0 = request_of c path (next_params k ps) (Some ''GET'') (Some hs)
                                None None None"
        define qs where "qs = fst (paginate c path item script (nextPageKey resp)
                (next_params k ps) (headers q0)
                (case map_of (arrays resp) item of Some xs \<Rightarrow> items @ xs | None \<Rightarrow> items))"
        have step: "fst (paginate c path item (out # script) (Some k) ps hs items) = q0 # qs"
          using False Inr
          by (simp add: paginate.simps Let_def result_makeRequest request_makeRequest
              q0_def qs_def)
        have q0: "params q0 = next_params k ps"
          by (simp add: q0_def params_get)
        have IH: "\<forall>q \<in> set qs. params q = next_params k ps
                   \<or> (\<exists>k'. k' \<noteq> ''firstCall'' \<and> params q = Some [(''nextPageKey'', k')])"
          unfolding qs_def by (rule Cons.IH)
        have "params q = ps \<or> (\<exists>k'. k' \<noteq> ''firstCall'' \<and> params q = Some [(''nextPageKey'', k')])"
          if "q \<in> set (q0 # qs)" for q
        proof (cases "params q = next_params k ps")
          case True
          with np show ?thesis by metis
        next
          case False
          with that q0 IH show ?thesis by auto
        qed
        then show ?thesis
          unfolding Some step by blast
      qed
    qed
  qed
qed

section \<open>The claims\<close>

subsection \<open>makeRequest\<close>


text \<open>
  C3. When the transport rejects with a value that has a \<open>request\<close> key and no
  \<open>response\<close> key (the request was sent, no response came), \<open>makeRequest\<close> fails with
  the message \<open>No response from server <baseUrl>\<close>, code 0, the message of the
  rejection as detail message and no constraint violations.
\<close>

theorem C3_no_response:
  assumes "''response'' \<notin> set (keys e)" and "''request'' \<in> set (keys e)"
  shows "result (makeRequest c path ps meth hdrs qp files rt (Rejected e))
         = Inl (ApiError \<lparr>err_message = ''No response from server '' @ baseUrl c,
                errorParams = Some \<lparr>code = 0, message = ax_message e,
                                     constraintViolations = []\<rparr>\<rparr>)"
  using assms by (simp add: result_makeRequest settle_def on_rejected_def)

theorem C3_no_response_witness:
  "''response'' \<notin> set (keys timed_out) \<and> ''request'' \<in> set (keys timed_out)
   \<and> result (makeRequest env ''/api/v2/entities'' None None None None None None (Rejected timed_out))
     = Inl (ApiError \<lparr>err_message = ''No response from server https://env.example'',
            errorParams = Some \<lparr>code = 0, message = ''timeout of 1000ms exceeded'',
                                 constraintViolations = []\<rparr>\<rparr>)"
proof -
  have h1: "''response'' \<notin> set (keys timed_out)" by (simp add: timed_out_def)
  have h2: "''request'' \<in> set (keys timed_out)" by (simp add: timed_out_def)
  show ?thesis
    using h1 h2
      C3_no_response [OF h1 h2, of env "''/api/v2/entities''" None None None None None None]
    by (simp add: env_def timed_out_def)
qed


text \<open>
  C6. Without a file attachment the content type should be \<open>application/json\<close> unless
  the caller supplied one, which is then used unchanged. The caller's headers are tested
  for the key \<open>Content-Type\<close> and the default is written to the key \<open>Content-type\<close>:
  a caller who supplies \<open>Content-type: text/plain\<close> has it replaced by the default.
\<close>

theorem C6_caller_content_type_replaced:
  "headers (request (makeRequest env ''/api/v2/things'' None None
              (Some [(''Content-type'', ''text/plain'')]) None None None
              (Resolved (page [] None))))
   = [(''Content-type'', ''application/json''), (''Authorization'', ''Api-Token dt0c01.abc'')]"
  by (simp add: request_makeRequest headers_request_of set_headers_def Let_def has_key_def
      assign_def env_def)

text \<open>
  C7, as amended. When the transport rejects with a value that has neither a
  \<open>response\<close> nor a \<open>request\<close> key, \<open>makeRequest\<close> fails with the message
  \<open>Error making request to <url>: <underlying message>.\<close>, code 0 and no constraint
  violations, and the detail message is that same synthesized message.
\<close>

theorem C7_unexpected_failure:
  assumes "''response'' \<notin> set (keys e)" and "''request'' \<notin> set (keys e)"
  shows "result (makeRequest c path ps meth hdrs qp files rt (Rejected e))
         = Inl (ApiError
             \<lparr>err_message =
                ''Error making request to '' @ baseUrl c @ path @ '': '' @ ax_message e @ ''.'',
              errorParams = Some
                \<lparr>code = 0,
                 message =
                   ''Error making request to '' @ baseUrl c @ path @ '': '' @ ax_message e @ ''.'',
                 constraintViolations = []\<rparr>\<rparr>)"
  using assms by (simp add: result_makeRequest settle_def on_rejected_def Let_def)

theorem C7_unexpected_failure_witness:
  "''response'' \<notin> set (keys not_sent) \<and> ''request'' \<notin> set (keys not_sent)
   \<and> result (makeRequest env ''/api/v2/things'' None None None None None None (Rejected not_sent))
     = Inl (ApiError
         \<lparr>err_message = ''Error making request to https://env.example/api/v2/things: Invalid URL.'',
          errorParams = Some
            \<lparr>code = 0,
             message = ''Error making request to https://env.example/api/v2/things: Invalid URL.'',
             constraintViolations = []\<rparr>\<rparr>)"
proof -
  have h1: "''response'' \<notin> set (keys not_sent)" by (simp add: not_sent_def)
  have h2: "''request'' \<notin> set (keys not_sent)" by (simp add: not_sent_def)
  show ?thesis
    using h1 h2
      C7_unexpected_failure [OF h1 h2, of env "''/api/v2/things''" None None None None None None]
    by (simp add: env_def not_sent_def)
qed

text \<open>
  The claim as it was stated has the underlying message as detail message; for a
  rejection with the message \<open>Invalid URL\<close> the error is not that one.
\<close>

theorem C7_detail_message_counterexample:
  "result (makeRequest env ''/api/v2/things'' None None None None None None (Rejected not_sent))
   \<noteq> Inl (ApiError
         \<lparr>err_message = ''Error making request to https://env.example/api/v2/things: Invalid URL.'',
          errorParams = Some \<lparr>code = 0, message = ''Invalid URL'',
                               constraintViolations = []\<rparr>\<rparr>)"
  by (simp add: result_makeRequest settle_def on_rejected_def Let_def env_def not_sent_def)



text \<open>
  C10. The request of every call has \<open>Api-Token <token>\<close> under the key
  \<open>Authorization\<close>, whatever the caller's headers hold there, and the headers object
  of a caller who passed one holds it after the call.
\<close>

theorem C10_authorization_header:
  "map_of (headers (request (makeRequest c path ps meth hdrs qp files rt out))) ''Authorization''
     = Some (''Api-Token '' @ apiToken c)
   \<and> caller_headers (makeRequest c path ps meth (Some h) qp files rt out)
     = Some (headers (request (makeRequest c path ps meth (Some h) qp files rt out)))"
  by (simp add: caller_headers_makeRequest request_makeRequest headers_request_of set_headers_def
      Let_def map_of_assign)

subsection \<open>paginatedCall\<close>

text \<open>
  C2, as amended. For pages of status below 400 of which every one but the last names a
  next page with a cursor other than \<open>firstCall\<close>, and the last has no cursor or an
  empty one, \<open>paginatedCall\<close> returns the items of the pages in page order, having
  issued one GET request per page: the first with the caller's parameters, each later
  one with the cursor of the page before as its only parameter.
\<close>

theorem C2_pages:
  assumes "\<forall>r \<in> set rs. status r < 400 \<and> has_cursor r \<and> nextPageKey (data r) \<noteq> Some ''firstCall''"
    and "status l < 400" and "\<not> has_cursor l"
  shows "snd (paginatedCall c path item ps hdrs (map Resolved rs @ [Resolved l]))
           = Some (Inr (concat (map (items_of item) (rs @ [l]))))
       \<and> map params (fst (paginatedCall c path item ps hdrs (map Resolved rs @ [Resolved l])))
           = ps # map cursor_params rs
       \<and> map http_method (fst (paginatedCall c path item ps hdrs (map Resolved rs @ [Resolved l])))
           = replicate (Suc (length rs)) ''GET''"
proof -
  have k: "''firstCall'' \<noteq> ([] :: string)" by simp
  show ?thesis
    unfolding paginatedCall_def
    using paginate_pages [OF assms k, of c path item ps _ "[]"]
    by (simp add: next_params_def)
qed

theorem C2_pages_witness:
  "status (page [''a'', ''b''] (Some ''k1'')) < 400 \<and> has_cursor (page [''a'', ''b''] (Some ''k1''))
   \<and> nextPageKey (data (page [''a'', ''b''] (Some ''k1''))) \<noteq> Some ''firstCall''
   \<and> status (page [''c''] (Some [])) < 400 \<and> \<not> has_cursor (page [''c''] (Some []))
   \<and> snd (paginatedCall env ''/api/v2/things'' ''items'' (Some [(''filter'', ''x'')]) None
            [Resolved (page [''a'', ''b''] (Some ''k1'')), Resolved (page [''c''] (Some []))])
       = Some (Inr [''a'', ''b'', ''c''])
   \<and> map params (fst (paginatedCall env ''/api/v2/things'' ''items'' (Some [(''filter'', ''x'')]) None
            [Resolved (page [''a'', ''b''] (Some ''k1'')), Resolved (page [''c''] (Some []))]))
       = [Some [(''filter'', ''x'')], Some [(''nextPageKey'', ''k1'')]]
   \<and> map http_method (fst (paginatedCall env ''/api/v2/things'' ''items'' (Some [(''filter'', ''x'')]) None
            [Resolved (page [''a'', ''b''] (Some ''k1'')), Resolved (page [''c''] (Some []))]))
       = [''GET'', ''GET'']"
proof -
  have h1: "\<forall>r \<in> set [page [''a'', ''b''] (Some ''k1'')].
      status r < 400 \<and> has_cursor r \<and> nextPageKey (data r) \<noteq> Some ''firstCall''"
    by (simp add: page_def has_cursor_def)
  have h2: "status (page [''c''] (Some [])) < 400" by (simp add: page_def)
  have h3: "\<not> has_cursor (page [''c''] (Some []))" by (simp add: page_def has_cursor_def)
  show ?thesis
    using h1 h2 h3
      C2_pages [OF h1 h2 h3, of env "''/api/v2/things''" "''items''" "Some [(''filter'', ''x'')]" None]
    by (simp add: items_of_def cursor_params_def page_def)
qed

text \<open>
  The claim as it was stated covers every cursor. After a page with the cursor
  \<open>firstCall\<close> the second request carries the caller's parameters again.
\<close>

theorem C2_counterexample:
  "map params (fst (paginatedCall env ''/api/v2/things'' ''items'' (Some [(''filter'', ''x'')]) None
            [Resolved (page [''a'', ''b''] (Some ''firstCall'')), Resolved (page [''c''] (Some []))]))
     = [Some [(''filter'', ''x'')], Some [(''filter'', ''x'')]]
   \<and> Some [(''filter'', ''x'')] \<noteq> Some [(''nextPageKey'', ''firstCall'')]"
  by (simp add: paginatedCall_def paginate.simps Let_def result_makeRequest request_makeRequest
      settle_ok page_def params_get next_params_def)

text \<open>
  C4. When the request of some page fails, after pages that each named a next page,
  \<open>paginatedCall\<close> fails with the failure of that request and issues no further
  request; the items of the earlier pages are not returned.
\<close>

theorem C4_failure:
  assumes "\<forall>r \<in> set rs. status r < 400 \<and> has_cursor r"
    and "settle c path bad = Inl f"
  shows "snd (paginatedCall c path item ps hdrs (map Resolved rs @ bad # rest)) = Some (Inl f)
       \<and> length (fst (paginatedCall c path item ps hdrs (map Resolved rs @ bad # rest)))
           = Suc (length rs)"
proof -
  have k: "''firstCall'' \<noteq> ([] :: string)" by simp
  show ?thesis
    unfolding paginatedCall_def
    by (rule paginate_failure [OF assms k])
qed

theorem C4_failure_witness:
  "status (page [''a'', ''b''] (Some ''k1'')) < 400 \<and> has_cursor (page [''a'', ''b''] (Some ''k1''))
   \<and> settle env ''/api/v2/things'' (Rejected unauthorized) = Inl unauthorized_error
   \<and> snd (paginatedCall env ''/api/v2/things'' ''items'' None None
        [Resolved (page [''a'', ''b''] (Some ''k1'')), Rejected unauthorized,
         Resolved (page [''c''] None)]) = Some (Inl unauthorized_error)
   \<and> length (fst (paginatedCall env ''/api/v2/things'' ''items'' None None
        [Resolved (page [''a'', ''b''] (Some ''k1'')), Rejected unauthorized,
         Resolved (page [''c''] None)])) = 2"
proof -
  have h1: "\<forall>r \<in> set [page [''a'', ''b''] (Some ''k1'')]. status r < 400 \<and> has_cursor r"
    by (simp add: page_def has_cursor_def)
  have h2: "settle env ''/api/v2/things'' (Rejected unauthorized) = Inl unauthorized_error"
    by (simp add: settle_def on_rejected_def unauthorized_def unauthorized_error_def
        response_401_def)
  show ?thesis
    using h1 h2
      C4_failure [OF h1 h2, of "''items''" None None "[Resolved (page [''c''] None)]"]
    by simp
qed

text \<open>
  C9. After a page whose cursor is \<open>firstCall\<close> the loop goes on, and the next request
  has the query parameters of the request before it; the parameters of every request
  are the caller's or hold only a cursor other than \<open>firstCall\<close>, so the loop never
  sends that cursor.
\<close>

theorem C9_sentinel:
  assumes "\<forall>r \<in> set rs. status r < 400 \<and> has_cursor r"
    and "status r0 < 400" and "nextPageKey (data r0) = Some ''firstCall''"
  shows "Suc (Suc (length rs))
           \<le> length (fst (paginatedCall c path item ps hdrs (map Resolved rs @ Resolved r0 # out # rest)))
       \<and> params (fst (paginatedCall c path item ps hdrs (map Resolved rs @ Resolved r0 # out # rest))
                   ! Suc (length rs))
           = params (fst (paginatedCall c path item ps hdrs (map Resolved rs @ Resolved r0 # out # rest))
                   ! length rs)
       \<and> (\<forall>q \<in> set (fst (paginatedCall c path item ps hdrs
                              (map Resolved rs @ Resolved r0 # out # rest))).
             params q = ps \<or> (\<exists>k. k \<noteq> ''firstCall'' \<and> params q = Some [(''nextPageKey'', k)]))"
proof -
  have k: "''firstCall'' \<noteq> ([] :: string)" by simp
  show ?thesis
    unfolding paginatedCall_def
    by (intro conjI paginate_params paginate_resend [OF assms k, THEN conjunct1]
        paginate_resend [OF assms k, THEN conjunct2])
qed

theorem C9_sentinel_witness:
  "status (page [''a''] (Some ''k1'')) < 400 \<and> has_cursor (page [''a''] (Some ''k1''))
   \<and> status (page [''b''] (Some ''firstCall'')) < 400
   \<and> nextPageKey (data (page [''b''] (Some ''firstCall''))) = Some ''firstCall''
   \<and> map params (fst (paginatedCall env ''/api/v2/things'' ''items'' (Some [(''filter'', ''x'')]) None
        [Resolved (page [''a''] (Some ''k1'')), Resolved (page [''b''] (Some ''firstCall'')),
         Resolved (page [''c''] None)]))
     = [Some [(''filter'', ''x'')], Some [(''nextPageKey'', ''k1'')], Some [(''nextPageKey'', ''k1'')]]"
proof -
  have h1: "\<forall>r \<in> set [page [''a''] (Some ''k1'')]. status r < 400 \<and> has_cursor r"
    by (simp add: page_def has_cursor_def)
  have h2: "status (page [''b''] (Some ''firstCall'')) < 400" by (simp add: page_def)
  have h3: "nextPageKey (data (page [''b''] (Some ''firstCall''))) = Some ''firstCall''"
    by (simp add: page_def)
  have run: "map params (fst (paginatedCall env ''/api/v2/things'' ''items'' (Some [(''filter'', ''x'')]) None
        [Resolved (page [''a''] (Some ''k1'')), Resolved (page [''b''] (Some ''firstCall'')),
         Resolved (page [''c''] None)]))
     = [Some [(''filter'', ''x'')], Some [(''nextPageKey'', ''k1'')], Some [(''nextPageKey'', ''k1'')]]"
    by (simp add: paginatedCall_def paginate.simps Let_def result_makeRequest request_makeRequest
      settle_ok page_def params_get next_params_def)
  show ?thesis
    using h1 h2 h3 run
      C9_sentinel [OF h1 h2 h3, of env "''/api/v2/things''" "''items''"
        "Some [(''filter'', ''x'')]" None "Resolved (page [''c''] None)" "[]"]
    by simp
qed

end
